theory Spec2Isabelle
  imports Complex_Main
begin

section \<open>The Qdrant client manager of \<open>connect/app.py\<close>\<close>

text \<open>
  The program is a wrapper around the \<open>qdrant_client\<close> library and a remote
  vector-database service. Neither is part of the repository, so every function of the
  wrapper takes the library as a parameter (the record \<open>lib\<close> below): each call of the
  library is a function of the state of the remote service that returns either the
  exception it raises or its value, together with the new state of the service.
  A Python float is modelled by the real number its literal denotes.
\<close>

subsection \<open>Python values, exceptions and outcomes\<close>

datatype py =
    PNone
  | PInt int
  | PFloat real
  | PStr string
  | PList "py list"
  | PDict "(string \<times> py) list"

type_synonym dict = "(string \<times> py) list"

text \<open>
  The exceptions that occur: \<open>KeyError\<close> of a subscript on a missing key, \<open>ValueError\<close>
  of \<open>int\<close> on a string that is no integer literal, \<open>AttributeError\<close> of a missing
  attribute, and \<open>LibraryError\<close> for any exception raised inside the client library.
  Each of them is a subclass of Python's \<open>Exception\<close>, so \<open>except Exception\<close> catches
  all four.
\<close>

datatype exn =
    KeyError string
  | ValueError string
  | AttributeError string
  | LibraryError string

fun message :: "exn \<Rightarrow> string" where
  "message (KeyError k) = [CHR 0x27] @ k @ [CHR 0x27]"
| "message (ValueError s) = ''invalid literal for int() with base 10: '' @ [CHR 0x27] @ s @ [CHR 0x27]"
| "message (AttributeError s) = s"
| "message (LibraryError s) = s"

text \<open>
  A call returns a value, raises an exception, or ends the process (\<open>sys.exit\<close>;
  \<open>SystemExit\<close> is no subclass of \<open>Exception\<close> and passes every handler of the program).
\<close>

datatype 'a outcome = Returns 'a | Raises exn | Exits int

subsection \<open>The data of the client library\<close>

datatype Distance = COSINE | DOT | EUCLID

record VectorParams =
  size_vp :: int
  distance_vp :: Distance

datatype point_id = IntId int | StrId string

record PointStruct =
  id_ps :: point_id
  vector_ps :: "real list"
  payload_ps :: "dict option"

record ScoredPoint =
  id_sp :: point_id
  score_sp :: real
  payload_sp :: "dict option"

record CollectionDescription =
  name_cd :: string

record CollectionsResponse =
  collections :: "CollectionDescription list"

text \<open>
  \<open>info.config.params.vectors\<close> is one \<open>VectorParams\<close> or a dictionary of named ones;
  the dictionary has no attribute \<open>size\<close>.
\<close>

datatype vectors_config = Single VectorParams | Named "(string \<times> VectorParams) list"

record CollectionParams =
  vectors :: vectors_config

record CollectionConfig =
  params :: CollectionParams

record CollectionInfo =
  points_count :: int
  config :: CollectionConfig

text \<open>
  The library: \<open>'c\<close> is the client handle, \<open>'s\<close> the state of the remote service,
  \<open>'f\<close> the library's \<open>Filter\<close> model. \<open>int_str\<close> is Python's \<open>int\<close> on a string
  (\<open>None\<close> when it raises \<open>ValueError\<close>), \<open>str_Distance\<close> is \<open>str\<close> on a \<open>Distance\<close>.
\<close>

record ('c, 's, 'f) lib =
  int_str :: "string \<Rightarrow> int option"
  str_Distance :: "Distance \<Rightarrow> string"
  QdrantClient :: "string \<Rightarrow> int \<Rightarrow> 's \<Rightarrow> (exn + 'c) \<times> 's"
  mk_PointStruct :: "py \<Rightarrow> py \<Rightarrow> py \<Rightarrow> exn + PointStruct"
  mk_Filter :: "dict \<Rightarrow> exn + 'f"
  client_get_collections :: "'c \<Rightarrow> 's \<Rightarrow> (exn + CollectionsResponse) \<times> 's"
  client_get_collection :: "'c \<Rightarrow> string \<Rightarrow> 's \<Rightarrow> (exn + CollectionInfo) \<times> 's"
  client_create_collection :: "'c \<Rightarrow> string \<Rightarrow> VectorParams \<Rightarrow> 's \<Rightarrow> (exn + bool) \<times> 's"
  client_upsert :: "'c \<Rightarrow> string \<Rightarrow> PointStruct list \<Rightarrow> 's \<Rightarrow> (exn + unit) \<times> 's"
  client_search :: "'c \<Rightarrow> string \<Rightarrow> real list \<Rightarrow> int \<Rightarrow> 'f option \<Rightarrow> bool \<Rightarrow> 's
                     \<Rightarrow> (exn + ScoredPoint list) \<times> 's"
  client_delete_collection :: "'c \<Rightarrow> string \<Rightarrow> 's \<Rightarrow> (exn + bool) \<times> 's"

subsection \<open>The world: the remote service and the console\<close>

text \<open>
  A printed line. The lines of fixed text and of text with strings put in are \<open>Line\<close>;
  the lines that format a number, an id or a payload keep the values they format.
\<close>

datatype printed =
    Line string
  | Points_line string int
  | Inserted_line nat
  | Result_line nat point_id real
  | Payload_line "dict option"

record 's world =
  server :: 's
  stdout :: "printed list"

definition print :: "printed \<Rightarrow> 's world \<Rightarrow> 's world" where
  "print l w = w\<lparr>stdout := stdout w @ [l]\<rparr>"

text \<open>Sequencing: an exception or an exit of the first part ends the whole.\<close>

definition then_do :: "('s world \<Rightarrow> 'a outcome \<times> 's world) \<Rightarrow> ('a \<Rightarrow> 's world \<Rightarrow> 'b outcome \<times> 's world)
    \<Rightarrow> 's world \<Rightarrow> 'b outcome \<times> 's world" where
  "then_do f g w =
     (case f w of
        (Returns x, w') \<Rightarrow> g x w'
      | (Raises e, w') \<Rightarrow> (Raises e, w')
      | (Exits n, w') \<Rightarrow> (Exits n, w'))"

subsection \<open>\<open>QdrantManager\<close>\<close>

record 'c QdrantManager =
  host :: string
  port :: int
  client :: 'c

text \<open>
  \<open>__init__\<close>, lines 12 to 26. \<open>environ\<close> is the process environment. The port is
  converted first (\<open>read_port\<close>, line 14), then the host is checked (lines 16 to 19),
  then the client is made and the connection is tested (\<open>connect\<close>, the body of the
  \<open>try\<close> of lines 22 and 23).
\<close>

definition read_port :: "('c, 's, 'f) lib \<Rightarrow> (string \<rightharpoonup> string) \<Rightarrow> exn + int" where
  "read_port l environ =
     (case environ ''QDRANT_PORT'' of
        None \<Rightarrow> Inr 6333
      | Some s \<Rightarrow> (case int_str l s of None \<Rightarrow> Inl (ValueError s) | Some n \<Rightarrow> Inr n))"

definition connect :: "('c, 's, 'f) lib \<Rightarrow> string \<Rightarrow> int \<Rightarrow> 's \<Rightarrow> (exn + 'c) \<times> 's" where
  "connect l h p s =
     (case QdrantClient l h p s of
        (Inl e, s1) \<Rightarrow> (Inl e, s1)
      | (Inr c, s1) \<Rightarrow>
          (case client_get_collections l c s1 of
             (Inl e, s2) \<Rightarrow> (Inl e, s2)
           | (Inr _, s2) \<Rightarrow> (Inr c, s2)))"

definition usage :: "'s world \<Rightarrow> 's world" where
  "usage w = print (Line ''Example: export QDRANT_HOST=13.250.25.109'')
               (print (Line ''Error: Set QDRANT_HOST environment variable'') w)"

definition QdrantManager_init ::
    "('c, 's, 'f) lib \<Rightarrow> (string \<rightharpoonup> string) \<Rightarrow> 's world \<Rightarrow> 'c QdrantManager outcome \<times> 's world" where
  "QdrantManager_init l environ w =
     (case read_port l environ of
        Inl e \<Rightarrow> (Raises e, w)
      | Inr p \<Rightarrow>
          (case environ ''QDRANT_HOST'' of
             None \<Rightarrow> (Exits 1, usage w)
           | Some h \<Rightarrow>
               if h = [] then (Exits 1, usage w)
               else
                 (case connect l h p (server w) of
                    (Inl e, s') \<Rightarrow>
                      (Exits 1, print (Line (''Connection failed: '' @ message e)) (w\<lparr>server := s'\<rparr>))
                  | (Inr c, s') \<Rightarrow>
                      (Returns \<lparr>host = h, port = p, client = c\<rparr>, w\<lparr>server := s'\<rparr>))))"

text \<open>\<open>list_collections\<close>, lines 28 to 40: the loop of lines 36 to 39, then the method.\<close>

fun list_collections_loop ::
    "('c, 's, 'f) lib \<Rightarrow> 'c QdrantManager \<Rightarrow> CollectionDescription list \<Rightarrow> string list \<Rightarrow> 's world
      \<Rightarrow> string list outcome \<times> 's world" where
  "list_collections_loop l self [] collection_names w = (Returns collection_names, w)"
| "list_collections_loop l self (collection # rest) collection_names w =
     (case client_get_collection l (client self) (name_cd collection) (server w) of
        (Inl e, s') \<Rightarrow> (Raises e, w\<lparr>server := s'\<rparr>)
      | (Inr info, s') \<Rightarrow>
          list_collections_loop l self rest (collection_names @ [name_cd collection])
            (print (Points_line (name_cd collection) (points_count info)) (w\<lparr>server := s'\<rparr>)))"

definition list_collections ::
    "('c, 's, 'f) lib \<Rightarrow> 'c QdrantManager \<Rightarrow> 's world \<Rightarrow> string list outcome \<times> 's world" where
  "list_collections l self w =
     (case client_get_collections l (client self) (server w) of
        (Inl e, s') \<Rightarrow> (Raises e, w\<lparr>server := s'\<rparr>)
      | (Inr resp, s') \<Rightarrow>
          if collections resp = [] then
            (Returns [], print (Line ''No collections found'') (w\<lparr>server := s'\<rparr>))
          else list_collections_loop l self (collections resp) [] (w\<lparr>server := s'\<rparr>))"

text \<open>\<open>create_collection\<close>, lines 42 to 60.\<close>

definition distance_map :: "string \<rightharpoonup> Distance" where
  "distance_map = [''Cosine'' \<mapsto> COSINE, ''Dot'' \<mapsto> DOT, ''Euclidean'' \<mapsto> EUCLID]"

definition create_collection ::
    "('c, 's, 'f) lib \<Rightarrow> 'c QdrantManager \<Rightarrow> string \<Rightarrow> int \<Rightarrow> string \<Rightarrow> 's world \<Rightarrow> unit outcome \<times> 's world" where
  "create_collection l self name vector_size distance w =
     (case client_create_collection l (client self) name
             \<lparr>size_vp = vector_size,
              distance_vp = (case distance_map distance of Some d \<Rightarrow> d | None \<Rightarrow> COSINE)\<rparr>
             (server w) of
        (Inr _, s') \<Rightarrow> (Returns (), print (Line (''Created collection: '' @ name)) (w\<lparr>server := s'\<rparr>))
      | (Inl e, s') \<Rightarrow>
          (Returns (), print (Line (''Failed to create collection: '' @ message e)) (w\<lparr>server := s'\<rparr>)))"

text \<open>
  \<open>insert_points\<close>, lines 62 to 77. The loop of lines 65 to 71 is outside the
  \<open>try\<close>: a subscript on a missing key and a \<open>PointStruct\<close> that the library refuses
  raise to the caller. The arguments are evaluated from left to right.
\<close>

definition qdrant_point :: "('c, 's, 'f) lib \<Rightarrow> dict \<Rightarrow> exn + PointStruct" where
  "qdrant_point l point =
     (case map_of point ''id'' of
        None \<Rightarrow> Inl (KeyError ''id'')
      | Some i \<Rightarrow>
          (case map_of point ''vector'' of
             None \<Rightarrow> Inl (KeyError ''vector'')
           | Some v \<Rightarrow>
               mk_PointStruct l i v (case map_of point ''payload'' of None \<Rightarrow> PDict [] | Some p \<Rightarrow> p)))"

fun qdrant_points_loop :: "('c, 's, 'f) lib \<Rightarrow> dict list \<Rightarrow> PointStruct list \<Rightarrow> exn + PointStruct list" where
  "qdrant_points_loop l [] qdrant_points = Inr qdrant_points"
| "qdrant_points_loop l (point # rest) qdrant_points =
     (case qdrant_point l point of
        Inl e \<Rightarrow> Inl e
      | Inr q \<Rightarrow> qdrant_points_loop l rest (qdrant_points @ [q]))"

definition insert_points ::
    "('c, 's, 'f) lib \<Rightarrow> 'c QdrantManager \<Rightarrow> string \<Rightarrow> dict list \<Rightarrow> 's world \<Rightarrow> unit outcome \<times> 's world" where
  "insert_points l self collection_name points w =
     (case qdrant_points_loop l points [] of
        Inl e \<Rightarrow> (Raises e, w)
      | Inr qdrant_points \<Rightarrow>
          (case client_upsert l (client self) collection_name qdrant_points (server w) of
             (Inr _, s') \<Rightarrow> (Returns (), print (Inserted_line (length points)) (w\<lparr>server := s'\<rparr>))
           | (Inl e, s') \<Rightarrow>
               (Returns (), print (Line (''Failed to insert points: '' @ message e)) (w\<lparr>server := s'\<rparr>))))"

text \<open>
  \<open>search\<close>, lines 79 to 104. The dictionary of a result has the three keys
  \<open>id\<close>, \<open>score\<close> and \<open>payload\<close>. A filter condition that is \<open>None\<close> or empty is falsy
  (\<open>search_filter\<close>, line 83, inside the \<open>try\<close>).
\<close>

record search_result =
  id_res :: point_id
  score_res :: real
  payload_res :: "dict option"

definition search_filter :: "('c, 's, 'f) lib \<Rightarrow> dict option \<Rightarrow> exn + 'f option" where
  "search_filter l filter_condition =
     (case filter_condition of
        None \<Rightarrow> Inr None
      | Some fc \<Rightarrow> if fc = [] then Inr None else map_sum id Some (mk_Filter l fc))"

definition search ::
    "('c, 's, 'f) lib \<Rightarrow> 'c QdrantManager \<Rightarrow> string \<Rightarrow> real list \<Rightarrow> int \<Rightarrow> dict option \<Rightarrow> 's world
      \<Rightarrow> search_result list outcome \<times> 's world" where
  "search l self collection_name query_vector limit filter_condition w =
     (case search_filter l filter_condition of
        Inl e \<Rightarrow> (Returns [], print (Line (''Search failed: '' @ message e)) w)
      | Inr f \<Rightarrow>
          (case client_search l (client self) collection_name query_vector limit f True (server w) of
             (Inl e, s') \<Rightarrow> (Returns [], print (Line (''Search failed: '' @ message e)) (w\<lparr>server := s'\<rparr>))
           | (Inr results, s') \<Rightarrow>
               (Returns (map (\<lambda>result. \<lparr>id_res = id_sp result, score_res = score_sp result,
                                          payload_res = payload_sp result\<rparr>) results),
                w\<lparr>server := s'\<rparr>)))"

text \<open>\<open>get_info\<close>, lines 106 to 117; \<open>None\<close> is the result \<open>None\<close> of line 117.\<close>

record info_result =
  points_count_info :: int
  vector_size_info :: int
  distance_info :: string

definition get_info ::
    "('c, 's, 'f) lib \<Rightarrow> 'c QdrantManager \<Rightarrow> string \<Rightarrow> 's world \<Rightarrow> info_result option outcome \<times> 's world" where
  "get_info l self collection_name w =
     (case client_get_collection l (client self) collection_name (server w) of
        (Inl e, s') \<Rightarrow> (Returns None, print (Line (''Failed to get info: '' @ message e)) (w\<lparr>server := s'\<rparr>))
      | (Inr info, s') \<Rightarrow>
          (case vectors (params (config info)) of
             Single vp \<Rightarrow>
               (Returns (Some \<lparr>points_count_info = points_count info, vector_size_info = size_vp vp,
                               distance_info = str_Distance l (distance_vp vp)\<rparr>),
                w\<lparr>server := s'\<rparr>)
           | Named _ \<Rightarrow>
               (Returns None,
                print (Line (''Failed to get info: ''
                        @ message (AttributeError ([CHR 0x27] @ ''dict'' @ [CHR 0x27] @ '' object has no attribute ''
                                  @ [CHR 0x27] @ ''size'' @ [CHR 0x27]))))
                  (w\<lparr>server := s'\<rparr>))))"

text \<open>\<open>delete_collection\<close>, lines 119 to 125.\<close>

definition delete_collection ::
    "('c, 's, 'f) lib \<Rightarrow> 'c QdrantManager \<Rightarrow> string \<Rightarrow> 's world \<Rightarrow> unit outcome \<times> 's world" where
  "delete_collection l self collection_name w =
     (case client_delete_collection l (client self) collection_name (server w) of
        (Inr _, s') \<Rightarrow> (Returns (), print (Line (''Deleted collection: '' @ collection_name)) (w\<lparr>server := s'\<rparr>))
      | (Inl e, s') \<Rightarrow>
          (Returns (), print (Line (''Failed to delete collection: '' @ message e)) (w\<lparr>server := s'\<rparr>)))"

subsection \<open>\<open>main\<close>\<close>

text \<open>
  The two loops that print results: lines 140 to 143 print the payload of a result only
  when it is truthy (neither \<open>None\<close> nor empty), lines 176 to 178 print it always.
  \<open>enumerate\<close> counts from 1.
\<close>

fun print_test_results :: "nat \<Rightarrow> search_result list \<Rightarrow> 's world \<Rightarrow> 's world" where
  "print_test_results i [] w = w"
| "print_test_results i (result # rest) w =
     print_test_results (Suc i) rest
       (let w1 = print (Result_line i (id_res result) (score_res result)) w
        in if payload_res result = None \<or> payload_res result = Some []
           then w1 else print (Payload_line (payload_res result)) w1)"

fun print_demo_results :: "nat \<Rightarrow> search_result list \<Rightarrow> 's world \<Rightarrow> 's world" where
  "print_demo_results i [] w = w"
| "print_demo_results i (result # rest) w =
     print_demo_results (Suc i) rest
       (print (Payload_line (payload_res result))
          (print (Result_line i (id_res result) (score_res result)) w))"

definition sample_data :: "dict list" where
  "sample_data =
     [[(''id'', PInt 1),
       (''vector'', PList [PFloat 0.1, PFloat 0.2, PFloat 0.3, PFloat 0.4]),
       (''payload'', PDict [(''name'', PStr ''item_1''), (''category'', PStr ''A'')])],
      [(''id'', PInt 2),
       (''vector'', PList [PFloat 0.5, PFloat 0.6, PFloat 0.7, PFloat 0.8]),
       (''payload'', PDict [(''name'', PStr ''item_2''), (''category'', PStr ''B'')])],
      [(''id'', PInt 3),
       (''vector'', PList [PFloat 0.9, PFloat 0.1, PFloat 0.5, PFloat 0.2]),
       (''payload'', PDict [(''name'', PStr ''item_3''), (''category'', PStr ''A'')])]]"

definition say :: "printed \<Rightarrow> 's world \<Rightarrow> unit outcome \<times> 's world" where
  "say l w = (Returns (), print l w)"

text \<open>
  \<open>main\<close>, lines 128 to 181, in its two parts: listing the collections and searching
  \<open>test_collection\<close> when it is there (lines 132 to 143), then the demo on the new
  collection (lines 145 to 181).
\<close>

definition main_existing :: "('c, 's, 'f) lib \<Rightarrow> 'c QdrantManager \<Rightarrow> 's world \<Rightarrow> unit outcome \<times> 's world" where
  "main_existing l qdrant =
     then_do (say (Line ''Collections:'')) (\<lambda>_.
     then_do (list_collections l qdrant) (\<lambda>collections.
       if ''test_collection'' \<in> set collections
       then then_do (say (Line (CHR 0x0A # ''Searching test_collection:''))) (\<lambda>_.
            then_do (search l qdrant ''test_collection'' [0.2, 0.1, 0.9, 0.7] 3 None) (\<lambda>results w.
              (Returns (), print_test_results 1 results w)))
       else (\<lambda>w. (Returns (), w))))"

definition main_demo :: "('c, 's, 'f) lib \<Rightarrow> 'c QdrantManager \<Rightarrow> 's world \<Rightarrow> unit outcome \<times> 's world" where
  "main_demo l qdrant =
     then_do (say (Line (CHR 0x0A # ''Demo - Creating new collection:''))) (\<lambda>_.
     then_do (create_collection l qdrant ''python_demo'' 4 ''Dot'') (\<lambda>_.
     then_do (insert_points l qdrant ''python_demo'' sample_data) (\<lambda>_.
     then_do (say (Line (CHR 0x0A # ''Searching python_demo:''))) (\<lambda>_.
     then_do (search l qdrant ''python_demo'' [0.1, 0.2, 0.3, 0.4] 2 None) (\<lambda>results.
     then_do (\<lambda>w. (Returns (), print_demo_results 1 results w)) (\<lambda>_.
     delete_collection l qdrant ''python_demo''))))))"

definition main :: "('c, 's, 'f) lib \<Rightarrow> (string \<rightharpoonup> string) \<Rightarrow> 's world \<Rightarrow> unit outcome \<times> 's world" where
  "main l environ =
     then_do (QdrantManager_init l environ) (\<lambda>qdrant.
     then_do (main_existing l qdrant) (\<lambda>_. main_demo l qdrant))"

section \<open>A reference library and service\<close>

text \<open>
  Modelled from the spec: the client library and the remote vector-database service,
  which are outside the repository. The service holds its collections by name, each with
  its vector parameters and its points by id. A collection is created when its name is
  new and not empty and its dimensionality is positive; an upsert inserts or replaces by
  id; a search scores every point that passes the filter by the metric of the collection,
  orders the results best first (descending score for the dot product and the cosine,
  ascending distance for the Euclidean metric) and keeps at most \<open>limit\<close> of them.
  A service that is not reachable fails every call. Deleting or reading a collection
  that does not exist fails.
\<close>

record ref_collection =
  params_rc :: VectorParams
  points_rc :: "(point_id \<times> real list \<times> dict option) list"

record ref_server =
  reachable :: bool
  colls :: "(string \<times> ref_collection) list"

definition refused :: exn where
  "refused = LibraryError ''[Errno 111] Connection refused''"

definition not_found :: "string \<Rightarrow> exn" where
  "not_found name = LibraryError (''Not found: Collection '' @ name @ '' does not exist'')"

text \<open>Decimal integer literals: optional blanks around an optional sign and digits.\<close>

fun digits_value :: "string \<Rightarrow> nat \<Rightarrow> nat option" where
  "digits_value [] acc = Some acc"
| "digits_value (c # cs) acc =
     (if c \<in> set ''0123456789'' then digits_value cs (10 * acc + (of_char c - 48)) else None)"

definition number_value :: "string \<Rightarrow> int option" where
  "number_value s = (if s = [] then None else map_option int (digits_value s 0))"

definition strip :: "string \<Rightarrow> string" where
  "strip s = rev (dropWhile (\<lambda>c. c = CHR '' '') (rev (dropWhile (\<lambda>c. c = CHR '' '') s)))"

definition ref_int_str :: "string \<Rightarrow> int option" where
  "ref_int_str s =
     (case strip s of
        [] \<Rightarrow> None
      | c # cs \<Rightarrow>
          if c = CHR ''-'' then map_option uminus (number_value cs)
          else if c = CHR ''+'' then number_value cs
          else number_value (c # cs))"

definition ref_str_Distance :: "Distance \<Rightarrow> string" where
  "ref_str_Distance d = (case d of COSINE \<Rightarrow> ''Distance.COSINE'' | DOT \<Rightarrow> ''Distance.DOT''
                          | EUCLID \<Rightarrow> ''Distance.EUCLID'')"

text \<open>The validation of a point: an id that is a non-negative integer or a string,
  a vector that is a list of numbers, a payload that is a dictionary or \<open>None\<close>.\<close>

definition invalid :: "string \<Rightarrow> exn" where
  "invalid field = LibraryError (''validation error: '' @ field)"

fun number :: "py \<Rightarrow> real option" where
  "number (PFloat x) = Some x"
| "number (PInt n) = Some (of_int n)"
| "number _ = None"

definition ref_mk_PointStruct :: "py \<Rightarrow> py \<Rightarrow> py \<Rightarrow> exn + PointStruct" where
  "ref_mk_PointStruct i v p =
     (case (case i of PInt n \<Rightarrow> if 0 \<le> n then Some (IntId n) else None
                    | PStr s \<Rightarrow> Some (StrId s) | _ \<Rightarrow> None) of
        None \<Rightarrow> Inl (invalid ''id'')
      | Some pid \<Rightarrow>
          (case (case v of PList xs \<Rightarrow> those (map number xs) | _ \<Rightarrow> None) of
             None \<Rightarrow> Inl (invalid ''vector'')
           | Some vec \<Rightarrow>
               (case p of
                  PDict d \<Rightarrow> Inr \<lparr>id_ps = pid, vector_ps = vec, payload_ps = Some d\<rparr>
                | PNone \<Rightarrow> Inr \<lparr>id_ps = pid, vector_ps = vec, payload_ps = None\<rparr>
                | _ \<Rightarrow> Inl (invalid ''payload''))))"

text \<open>A filter of the reference library: the payload entries a point must have, from
  \<open>{'must': [{'key': k, 'match': {'value': v}}, ...]}\<close>.\<close>

fun ref_condition :: "py \<Rightarrow> (string \<times> py) option" where
  "ref_condition (PDict [(k1, PStr k), (k2, PDict [(k3, v)])]) =
     (if k1 = ''key'' \<and> k2 = ''match'' \<and> k3 = ''value'' then Some (k, v) else None)"
| "ref_condition _ = None"

definition ref_mk_Filter :: "dict \<Rightarrow> exn + (string \<times> py) list" where
  "ref_mk_Filter fc =
     (case fc of
        [(k, PList conds)] \<Rightarrow>
          if k = ''must'' then
            (case those (map ref_condition conds) of
               None \<Rightarrow> Inl (invalid ''filter'') | Some cs \<Rightarrow> Inr cs)
          else Inl (invalid ''filter'')
      | _ \<Rightarrow> Inl (invalid ''filter''))"

definition ref_QdrantClient :: "string \<Rightarrow> int \<Rightarrow> ref_server \<Rightarrow> (exn + unit) \<times> ref_server" where
  "ref_QdrantClient h p s = (Inr (), s)"

text \<open>Modelled from the spec: the list of the collections of the service, in the order of their creation.\<close>

definition ref_get_collections :: "unit \<Rightarrow> ref_server \<Rightarrow> (exn + CollectionsResponse) \<times> ref_server" where
  "ref_get_collections c s =
     (if reachable s then (Inr \<lparr>collections = map (\<lambda>e. \<lparr>name_cd = fst e\<rparr>) (colls s)\<rparr>, s)
      else (Inl refused, s))"

text \<open>Modelled from the spec: the information of a collection: its number of points and the vector parameters
  given at its creation; a name that is not there fails.\<close>

definition ref_get_collection :: "unit \<Rightarrow> string \<Rightarrow> ref_server \<Rightarrow> (exn + CollectionInfo) \<times> ref_server" where
  "ref_get_collection c name s =
     (if reachable s then
        (case map_of (colls s) name of
           None \<Rightarrow> (Inl (not_found name), s)
         | Some rc \<Rightarrow>
             (Inr \<lparr>points_count = int (length (points_rc rc)),
                   config = \<lparr>params = \<lparr>vectors = Single (params_rc rc)\<rparr>\<rparr>\<rparr>, s))
      else (Inl refused, s))"

text \<open>Modelled from the spec: the creation of a collection, refused for an empty name, for a name that is
  there already and for a dimensionality below 1.\<close>

definition ref_create_collection ::
    "unit \<Rightarrow> string \<Rightarrow> VectorParams \<Rightarrow> ref_server \<Rightarrow> (exn + bool) \<times> ref_server" where
  "ref_create_collection c name vp s =
     (if \<not> reachable s then (Inl refused, s)
      else if name = [] then (Inl (invalid ''collection name''), s)
      else if map_of (colls s) name \<noteq> None
        then (Inl (LibraryError (''Collection '' @ name @ '' already exists'')), s)
      else if size_vp vp < 1 then (Inl (invalid ''size''), s)
      else (Inr True, s\<lparr>colls := colls s @ [(name, \<lparr>params_rc = vp, points_rc = []\<rparr>)]\<rparr>))"

fun upsert_entry :: "'k \<Rightarrow> 'v \<Rightarrow> ('k \<times> 'v) list \<Rightarrow> ('k \<times> 'v) list" where
  "upsert_entry k v [] = [(k, v)]"
| "upsert_entry k v (e # es) = (if fst e = k then (k, v) # es else e # upsert_entry k v es)"

text \<open>Modelled from the spec: the batch upsert, insert or replace by id, refused as a whole when the collection
  is not there or a vector has not the dimensionality of the collection.\<close>

definition ref_upsert :: "unit \<Rightarrow> string \<Rightarrow> PointStruct list \<Rightarrow> ref_server \<Rightarrow> (exn + unit) \<times> ref_server" where
  "ref_upsert c name pts s =
     (if \<not> reachable s then (Inl refused, s)
      else
        (case map_of (colls s) name of
           None \<Rightarrow> (Inl (not_found name), s)
         | Some rc \<Rightarrow>
             if list_ex (\<lambda>p. int (length (vector_ps p)) \<noteq> size_vp (params_rc rc)) pts
             then (Inl (invalid ''vector dimension''), s)
             else
               (Inr (),
                s\<lparr>colls := upsert_entry name
                    (rc\<lparr>points_rc :=
                          foldl (\<lambda>ps p. upsert_entry (id_ps p) (vector_ps p, payload_ps p) ps)
                            (points_rc rc) pts\<rparr>)
                    (colls s)\<rparr>)))"

definition dot :: "real list \<Rightarrow> real list \<Rightarrow> real" where
  "dot a b = sum_list (map2 (*) a b)"

definition score :: "Distance \<Rightarrow> real list \<Rightarrow> real list \<Rightarrow> real" where
  "score d q v =
     (case d of
        DOT \<Rightarrow> dot q v
      | COSINE \<Rightarrow> dot q v / (sqrt (dot q q) * sqrt (dot v v))
      | EUCLID \<Rightarrow> sqrt (dot (map2 (-) q v) (map2 (-) q v)))"

definition best_first :: "Distance \<Rightarrow> ScoredPoint list \<Rightarrow> ScoredPoint list" where
  "best_first d rs = (case d of EUCLID \<Rightarrow> sort_key score_sp rs | _ \<Rightarrow> sort_key (\<lambda>r. - score_sp r) rs)"

definition passes :: "(string \<times> py) list option \<Rightarrow> dict option \<Rightarrow> bool" where
  "passes f p =
     (case f of
        None \<Rightarrow> True
      | Some cs \<Rightarrow> list_all (\<lambda>(k, v). (case p of None \<Rightarrow> False | Some d \<Rightarrow> map_of d k = Some v)) cs)"

text \<open>Modelled from the spec: the search: the points that pass the filter, scored by the metric of the
  collection, best first, at most \<open>limit\<close> of them.\<close>

definition ref_search ::
    "unit \<Rightarrow> string \<Rightarrow> real list \<Rightarrow> int \<Rightarrow> (string \<times> py) list option \<Rightarrow> bool \<Rightarrow> ref_server
      \<Rightarrow> (exn + ScoredPoint list) \<times> ref_server" where
  "ref_search c name q limit f with_payload s =
     (if \<not> reachable s then (Inl refused, s)
      else
        (case map_of (colls s) name of
           None \<Rightarrow> (Inl (not_found name), s)
         | Some rc \<Rightarrow>
             if int (length q) \<noteq> size_vp (params_rc rc) then (Inl (invalid ''vector dimension''), s)
             else if limit < 1 then (Inl (invalid ''limit''), s)
             else
               (Inr (take (nat limit)
                      (best_first (distance_vp (params_rc rc))
                         (map (\<lambda>(i, v, p). \<lparr>id_sp = i, score_sp = score (distance_vp (params_rc rc)) q v,
                                            payload_sp = (if with_payload then p else None)\<rparr>)
                            (filter (\<lambda>(i, v, p). passes f p) (points_rc rc))))), s)))"

text \<open>Modelled from the spec: the deletion of a collection; a name that is not there fails.\<close>

definition ref_delete_collection :: "unit \<Rightarrow> string \<Rightarrow> ref_server \<Rightarrow> (exn + bool) \<times> ref_server" where
  "ref_delete_collection c name s =
     (if \<not> reachable s then (Inl refused, s)
      else if map_of (colls s) name = None then (Inl (not_found name), s)
      else (Inr True, s\<lparr>colls := filter (\<lambda>e. fst e \<noteq> name) (colls s)\<rparr>))"

definition ref_lib :: "(unit, ref_server, (string \<times> py) list) lib" where
  "ref_lib =
     \<lparr>int_str = ref_int_str,
      str_Distance = ref_str_Distance,
      QdrantClient = ref_QdrantClient,
      mk_PointStruct = ref_mk_PointStruct,
      mk_Filter = ref_mk_Filter,
      client_get_collections = ref_get_collections,
      client_get_collection = ref_get_collection,
      client_create_collection = ref_create_collection,
      client_upsert = ref_upsert,
      client_search = ref_search,
      client_delete_collection = ref_delete_collection\<rparr>"

subsection \<open>Concrete services, environments and managers\<close>

definition empty_server :: ref_server where
  "empty_server = \<lparr>reachable = True, colls = []\<rparr>"

definition down_server :: ref_server where
  "down_server = \<lparr>reachable = False, colls = []\<rparr>"

text \<open>A service that holds \<open>test_collection\<close>, of dimensionality 4, with one point.\<close>

definition test_server :: ref_server where
  "test_server =
     \<lparr>reachable = True,
      colls = [(''test_collection'',
                \<lparr>params_rc = \<lparr>size_vp = 4, distance_vp = COSINE\<rparr>,
                 points_rc = [(IntId 7, [1, 0, 0, 0], Some [(''name'', PStr ''seven'')])]\<rparr>)]\<rparr>"

text \<open>A service that holds only the empty collection \<open>python_demo\<close>.\<close>

definition demo_server :: ref_server where
  "demo_server =
     \<lparr>reachable = True,
      colls = [(''python_demo'', \<lparr>params_rc = \<lparr>size_vp = 4, distance_vp = DOT\<rparr>, points_rc = []\<rparr>)]\<rparr>"

definition start :: "'s \<Rightarrow> 's world" where
  "start s = \<lparr>server = s, stdout = []\<rparr>"

definition demo_environ :: "string \<rightharpoonup> string" where
  "demo_environ = [''QDRANT_HOST'' \<mapsto> ''13.250.25.109'']"

definition demo_manager :: "unit QdrantManager" where
  "demo_manager = \<lparr>host = ''13.250.25.109'', port = 6333, client = ()\<rparr>"

text \<open>A library whose fetch of the information of a collection fails.\<close>

definition no_info_lib :: "(unit, ref_server, (string \<times> py) list) lib" where
  "no_info_lib = ref_lib\<lparr>client_get_collection := \<lambda>c name s. (Inl refused, s)\<rparr>"

section \<open>Properties\<close>

subsection \<open>Sequencing and the loops\<close>

lemma list_collections_loop_append:
  "list_collections_loop l self (xs @ ys) acc w =
     then_do (list_collections_loop l self xs acc) (list_collections_loop l self ys) w"
proof (induction xs arbitrary: acc w)
  case Nil
  show ?case by (simp add: then_do_def)
next
  case (Cons x xs)
  show ?case
    by (simp add: Cons.IH split: prod.splits sum.splits) (simp add: then_do_def)
qed

lemma qdrant_points_loop_all:
  assumes "\<forall>point \<in> set points. \<not> isl (qdrant_point l point)"
  shows "qdrant_points_loop l points acc = Inr (acc @ map (\<lambda>point. projr (qdrant_point l point)) points)"
  using assms
proof (induction points arbitrary: acc)
  case Nil
  show ?case by simp
next
  case (Cons point rest)
  then obtain q where q: "qdrant_point l point = Inr q"
    by (cases "qdrant_point l point") auto
  with Cons show ?case by simp
qed

lemma print_test_results_world:
  "\<exists>out. print_test_results i rs w = w\<lparr>stdout := stdout w @ out\<rparr>"
proof (induction rs arbitrary: i w)
  case Nil
  have "print_test_results i [] w = w\<lparr>stdout := stdout w @ []\<rparr>" by simp
  then show ?case by blast
next
  case (Cons r rs)
  let ?w1 = "print (Result_line i (id_res r) (score_res r)) w"
  let ?w2 = "if payload_res r = None \<or> payload_res r = Some [] then ?w1
             else print (Payload_line (payload_res r)) ?w1"
  obtain out1 where o1: "?w2 = w\<lparr>stdout := stdout w @ out1\<rparr>"
    by (cases "payload_res r = None \<or> payload_res r = Some []") (simp_all add: print_def)
  from Cons.IH [of "Suc i" ?w2] obtain out where
    "print_test_results (Suc i) rs ?w2 = ?w2\<lparr>stdout := stdout ?w2 @ out\<rparr>" by blast
  then have "print_test_results i (r # rs) w = w\<lparr>stdout := stdout w @ (out1 @ out)\<rparr>"
    using o1 by (simp add: Let_def)
  then show ?case by blast
qed

subsection \<open>The reference library\<close>

lemma ref_lib_fields:
  "int_str ref_lib = ref_int_str"
  "str_Distance ref_lib = ref_str_Distance"
  "QdrantClient ref_lib = ref_QdrantClient"
  "mk_PointStruct ref_lib = ref_mk_PointStruct"
  "mk_Filter ref_lib = ref_mk_Filter"
  "client_get_collections ref_lib = ref_get_collections"
  "client_get_collection ref_lib = ref_get_collection"
  "client_create_collection ref_lib = ref_create_collection"
  "client_upsert ref_lib = ref_upsert"
  "client_search ref_lib = ref_search"
  "client_delete_collection ref_lib = ref_delete_collection"
  by (simp_all add: ref_lib_def)

lemma no_info_lib_fields:
  "client_get_collections no_info_lib = ref_get_collections"
  "client_get_collection no_info_lib = (\<lambda>c name s. (Inl refused, s))"
  by (simp_all add: no_info_lib_def ref_lib_def)

lemma map_of_fresh_append: "map_of xs k = None \<Longrightarrow> map_of (xs @ [(k, v)]) k = Some v"
  by (simp add: map_add_def)

lemma upsert_entry_fresh: "map_of xs k = None \<Longrightarrow> upsert_entry k v (xs @ [(k, v0)]) = xs @ [(k, v)]"
  by (induction xs) (auto split: if_splits)

lemma filter_fresh: "map_of xs k = None \<Longrightarrow> filter (\<lambda>e. fst e \<noteq> k) xs = xs"
  by (induction xs) (auto split: if_splits)

lemma ref_connect: "reachable s \<Longrightarrow> connect ref_lib h p s = (Inr (), s)"
  by (simp add: connect_def ref_lib_fields ref_QdrantClient_def ref_get_collections_def)

lemma ref_connect_down: "\<not> reachable s \<Longrightarrow> connect ref_lib h p s = (Inl refused, s)"
  by (simp add: connect_def ref_lib_fields ref_QdrantClient_def ref_get_collections_def)

lemma ref_init:
  assumes "read_port ref_lib environ = Inr p" and "environ ''QDRANT_HOST'' = Some h" and "h \<noteq> []"
    and "reachable (server w)"
  shows "QdrantManager_init ref_lib environ w = (Returns \<lparr>host = h, port = p, client = ()\<rparr>, w)"
  using assms by (simp add: QdrantManager_init_def ref_connect)

lemma ref_list_loop:
  assumes "reachable (server w)" and "\<forall>d \<in> set ds. map_of (colls (server w)) (name_cd d) \<noteq> None"
  shows "\<exists>out. list_collections_loop ref_lib self ds acc w =
           (Returns (acc @ map name_cd ds), w\<lparr>stdout := stdout w @ out\<rparr>)"
  using assms
proof (induction ds arbitrary: acc w)
  case Nil
  have "list_collections_loop ref_lib self [] acc w = (Returns (acc @ map name_cd []), w\<lparr>stdout := stdout w @ []\<rparr>)"
    by simp
  then show ?case by blast
next
  case (Cons d ds)
  from Cons.prems obtain rc where rc: "map_of (colls (server w)) (name_cd d) = Some rc"
    by auto
  let ?w1 = "print (Points_line (name_cd d) (int (length (points_rc rc)))) w"
  have "reachable (server ?w1)" and "\<forall>d \<in> set ds. map_of (colls (server ?w1)) (name_cd d) \<noteq> None"
    using Cons.prems by (simp_all add: print_def)
  from Cons.IH [OF this, of "acc @ [name_cd d]"] obtain out where
    out: "list_collections_loop ref_lib self ds (acc @ [name_cd d]) ?w1
            = (Returns ((acc @ [name_cd d]) @ map name_cd ds), ?w1\<lparr>stdout := stdout ?w1 @ out\<rparr>)"
    by blast
  have "list_collections_loop ref_lib self (d # ds) acc w
          = (Returns (acc @ map name_cd (d # ds)),
             w\<lparr>stdout := stdout w @ (Points_line (name_cd d) (int (length (points_rc rc))) # out)\<rparr>)"
    using Cons.prems(1) rc out by (simp add: ref_lib_fields ref_get_collection_def print_def)
  then show ?case by blast
qed

lemma ref_list_collections:
  assumes "reachable (server w)"
  shows "\<exists>out. list_collections ref_lib self w =
           (Returns (map fst (colls (server w))), w\<lparr>stdout := stdout w @ out\<rparr>)"
proof (cases "colls (server w) = []")
  case True
  then have "list_collections ref_lib self w
               = (Returns (map fst (colls (server w))), w\<lparr>stdout := stdout w @ [Line ''No collections found'']\<rparr>)"
    using assms by (simp add: list_collections_def ref_lib_fields ref_get_collections_def print_def)
  then show ?thesis by blast
next
  case False
  let ?ds = "map (\<lambda>e. \<lparr>name_cd = fst e\<rparr>) (colls (server w))"
  have "\<forall>d \<in> set ?ds. map_of (colls (server w)) (name_cd d) \<noteq> None"
    by (auto simp: map_of_eq_None_iff)
  from ref_list_loop [OF assms this, of self "[]"] obtain out where
    "list_collections_loop ref_lib self ?ds [] w = (Returns (map name_cd ?ds), w\<lparr>stdout := stdout w @ out\<rparr>)"
    by auto
  then have "list_collections ref_lib self w
               = (Returns (map fst (colls (server w))), w\<lparr>stdout := stdout w @ out\<rparr>)"
    using assms False by (simp add: list_collections_def ref_lib_fields ref_get_collections_def comp_def)
  then show ?thesis by blast
qed

lemma ref_search_server: "snd (ref_search c name q limit f wp s) = s"
  by (simp add: ref_search_def split: option.splits)

lemma ref_search_world:
  "\<exists>rs out. search ref_lib self name q limit fc w = (Returns rs, w\<lparr>stdout := stdout w @ out\<rparr>)"
proof (cases "search_filter ref_lib fc")
  case (Inl e)
  then have "search ref_lib self name q limit fc w
               = (Returns [], w\<lparr>stdout := stdout w @ [Line (''Search failed: '' @ message e)]\<rparr>)"
    by (simp add: search_def print_def)
  then show ?thesis by blast
next
  case (Inr f)
  obtain r s' where r: "ref_search (client self) name q limit f True (server w) = (r, s')"
    by (cases "ref_search (client self) name q limit f True (server w)")
  with ref_search_server [of "client self" name q limit f True "server w"] have s': "s' = server w"
    by simp
  show ?thesis
  proof (cases r)
    case (Inl e)
    then have "search ref_lib self name q limit fc w
               = (Returns [], w\<lparr>stdout := stdout w @ [Line (''Search failed: '' @ message e)]\<rparr>)"
      using Inr r s' by (simp add: search_def print_def ref_lib_fields)
    then show ?thesis by blast
  next
    case (Inr results)
    then have "search ref_lib self name q limit fc w
               = (Returns (map (\<lambda>result. \<lparr>id_res = id_sp result, score_res = score_sp result,
                                          payload_res = payload_sp result\<rparr>) results),
                  w\<lparr>stdout := stdout w @ []\<rparr>)"
      using \<open>search_filter ref_lib fc = Inr f\<close> r s' by (simp add: search_def ref_lib_fields)
    then show ?thesis by blast
  qed
qed

lemma ref_create_fresh:
  assumes "reachable s" and "name \<noteq> []" and "map_of (colls s) name = None" and "1 \<le> size_vp vp"
  shows "ref_create_collection c name vp s =
           (Inr True, s\<lparr>colls := colls s @ [(name, \<lparr>params_rc = vp, points_rc = []\<rparr>)]\<rparr>)"
  using assms by (simp add: ref_create_collection_def)

lemma ref_get_collection_last:
  assumes "reachable s" and "map_of (colls s) name = None"
  shows "ref_get_collection c name (s\<lparr>colls := colls s @ [(name, rc)]\<rparr>) =
           (Inr \<lparr>points_count = int (length (points_rc rc)),
                 config = \<lparr>params = \<lparr>vectors = Single (params_rc rc)\<rparr>\<rparr>\<rparr>,
            s\<lparr>colls := colls s @ [(name, rc)]\<rparr>)"
  using assms by (simp add: ref_get_collection_def map_of_fresh_append del: map_of_append)

lemma ref_upsert_last:
  assumes "reachable s" and "map_of (colls s) name = None"
    and "\<not> list_ex (\<lambda>p. int (length (vector_ps p)) \<noteq> size_vp (params_rc rc)) pts"
  shows "ref_upsert c name pts (s\<lparr>colls := colls s @ [(name, rc)]\<rparr>) =
           (Inr (),
            s\<lparr>colls := colls s @
                 [(name, rc\<lparr>points_rc :=
                             foldl (\<lambda>ps p. upsert_entry (id_ps p) (vector_ps p, payload_ps p) ps)
                               (points_rc rc) pts\<rparr>)]\<rparr>)"
  using assms
  by (simp add: ref_upsert_def map_of_fresh_append upsert_entry_fresh del: map_of_append)

lemma ref_search_last:
  assumes "reachable s" and "map_of (colls s) name = None"
    and "int (length q) = size_vp (params_rc rc)" and "1 \<le> limit"
  shows "ref_search c name q limit f wp (s\<lparr>colls := colls s @ [(name, rc)]\<rparr>) =
           (Inr (take (nat limit)
                  (best_first (distance_vp (params_rc rc))
                     (map (\<lambda>(i, v, p). \<lparr>id_sp = i, score_sp = score (distance_vp (params_rc rc)) q v,
                                        payload_sp = (if wp then p else None)\<rparr>)
                        (filter (\<lambda>(i, v, p). passes f p) (points_rc rc))))),
            s\<lparr>colls := colls s @ [(name, rc)]\<rparr>)"
  using assms by (simp add: ref_search_def map_of_fresh_append del: map_of_append)

lemma ref_delete_last:
  assumes "reachable s" and "map_of (colls s) name = None"
  shows "ref_delete_collection c name (s\<lparr>colls := colls s @ [(name, rc)]\<rparr>) = (Inr True, s)"
  using assms by (simp add: ref_delete_collection_def map_of_fresh_append filter_fresh del: map_of_append)

subsection \<open>\<open>main\<close> on the reference service\<close>

lemma length_sample_data: "length sample_data = 3"
  by (simp add: sample_data_def)

lemma sample_points:
  "qdrant_points_loop ref_lib sample_data [] =
     Inr [\<lparr>id_ps = IntId 1, vector_ps = [0.1, 0.2, 0.3, 0.4],
            payload_ps = Some [(''name'', PStr ''item_1''), (''category'', PStr ''A'')]\<rparr>,
          \<lparr>id_ps = IntId 2, vector_ps = [0.5, 0.6, 0.7, 0.8],
            payload_ps = Some [(''name'', PStr ''item_2''), (''category'', PStr ''B'')]\<rparr>,
          \<lparr>id_ps = IntId 3, vector_ps = [0.9, 0.1, 0.5, 0.2],
            payload_ps = Some [(''name'', PStr ''item_3''), (''category'', PStr ''A'')]\<rparr>]"
  by (simp add: sample_data_def qdrant_point_def ref_lib_fields ref_mk_PointStruct_def)

lemma ref_main_existing:
  assumes "reachable (server w)"
  shows "\<exists>out. main_existing ref_lib self w = (Returns (), w\<lparr>stdout := stdout w @ out\<rparr>)"
proof -
  let ?w1 = "print (Line ''Collections:'') w"
  have "reachable (server ?w1)" using assms by (simp add: print_def)
  from ref_list_collections [OF this, of self] obtain o2 where
    l: "list_collections ref_lib self ?w1 = (Returns (map fst (colls (server ?w1))), ?w1\<lparr>stdout := stdout ?w1 @ o2\<rparr>)"
    by blast
  let ?w2 = "?w1\<lparr>stdout := stdout ?w1 @ o2\<rparr>"
  show ?thesis
  proof (cases "''test_collection'' \<in> set (map fst (colls (server ?w1)))")
    case False
    then have "main_existing ref_lib self w = (Returns (), w\<lparr>stdout := stdout w @ (Line ''Collections:'' # o2)\<rparr>)"
      using l by (simp add: main_existing_def then_do_def say_def) (simp add: print_def)
    then show ?thesis by blast
  next
    case True
    let ?w3 = "print (Line (CHR 0x0A # ''Searching test_collection:'')) ?w2"
    from ref_search_world [of self "''test_collection''" "[0.2, 0.1, 0.9, 0.7]" 3 None ?w3]
    obtain rs o4 where
      s: "search ref_lib self ''test_collection'' [0.2, 0.1, 0.9, 0.7] 3 None ?w3
            = (Returns rs, ?w3\<lparr>stdout := stdout ?w3 @ o4\<rparr>)"
      by blast
    let ?w4 = "?w3\<lparr>stdout := stdout ?w3 @ o4\<rparr>"
    from print_test_results_world [of 1 rs ?w4] obtain o5 where
      p: "print_test_results 1 rs ?w4 = ?w4\<lparr>stdout := stdout ?w4 @ o5\<rparr>"
      by blast
    have "main_existing ref_lib self w = (Returns (), print_test_results 1 rs ?w4)"
      using True l s by (simp add: main_existing_def then_do_def say_def)
    also have "print_test_results 1 rs ?w4 =
        w\<lparr>stdout := stdout w @
             (Line ''Collections:'' # o2 @ Line (CHR 0x0A # ''Searching test_collection:'') # o4 @ o5)\<rparr>"
      unfolding p by (simp add: print_def)
    finally show ?thesis by blast
  qed
qed

lemma ref_main_existing_empty:
  "main_existing ref_lib self (start empty_server) =
     (Returns (), \<lparr>server = empty_server, stdout = [Line ''Collections:'', Line ''No collections found'']\<rparr>)"
  by (simp add: main_existing_def then_do_def say_def print_def list_collections_def ref_lib_fields
        ref_get_collections_def start_def empty_server_def)

lemma ref_main_demo:
  assumes up: "reachable (server w)" and fresh: "map_of (colls (server w)) ''python_demo'' = None"
  shows "main_demo ref_lib self w =
     (Returns (),
      w\<lparr>stdout := stdout w @
         [Line (CHR 0x0A # ''Demo - Creating new collection:''),
          Line ''Created collection: python_demo'',
          Inserted_line 3,
          Line (CHR 0x0A # ''Searching python_demo:''),
          Result_line 1 (IntId 2) 0.7,
          Payload_line (Some [(''name'', PStr ''item_2''), (''category'', PStr ''B'')]),
          Result_line 2 (IntId 3) 0.34,
          Payload_line (Some [(''name'', PStr ''item_3''), (''category'', PStr ''A'')]),
          Line ''Deleted collection: python_demo'']\<rparr>)"
  using up fresh
  by (simp add: main_demo_def then_do_def say_def print_def create_collection_def insert_points_def
        search_def search_filter_def delete_collection_def sample_points distance_map_def
        ref_lib_fields ref_create_fresh ref_upsert_last ref_search_last ref_delete_last
        best_first_def score_def dot_def passes_def length_sample_data)

section \<open>The claims\<close>

text \<open>
  Claim C2. For every call of \<open>create_collection\<close> the distance string is mapped by the
  fixed enumeration: \<open>Cosine\<close> to the cosine similarity, \<open>Dot\<close> to the dot product,
  \<open>Euclidean\<close> to the Euclidean distance, and every other string to the cosine similarity.
  The call made for another string is the call made for \<open>Cosine\<close>: the same request to
  the library, the same single line printed, no warning and no error.
\<close>

theorem create_collection_maps_distance:
  "create_collection l self name vector_size distance w =
     (case client_create_collection l (client self) name
             \<lparr>size_vp = vector_size,
              distance_vp = (if distance = ''Cosine'' then COSINE
                             else if distance = ''Dot'' then DOT
                             else if distance = ''Euclidean'' then EUCLID
                             else COSINE)\<rparr> (server w) of
        (Inr _, s') \<Rightarrow> (Returns (), print (Line (''Created collection: '' @ name)) (w\<lparr>server := s'\<rparr>))
      | (Inl e, s') \<Rightarrow>
          (Returns (), print (Line (''Failed to create collection: '' @ message e)) (w\<lparr>server := s'\<rparr>)))"
  by (simp add: create_collection_def distance_map_def)

text \<open>
  Claim C4. When the underlying search fails, be it the construction of the filter or the
  call of the library (as for a collection that does not exist), \<open>search\<close> prints the
  error and returns the empty list; a search that succeeds with no match returns the same
  value, so the caller cannot tell the two apart.
\<close>

theorem search_failure_returns_empty:
  assumes "search_filter l fc = Inl e \<and> w' = w
         \<or> (\<exists>f s'. search_filter l fc = Inr f
               \<and> client_search l (client self) name q limit f True (server w) = (Inl e, s')
               \<and> w' = w\<lparr>server := s'\<rparr>)"
  shows "search l self name q limit fc w = (Returns [], print (Line (''Search failed: '' @ message e)) w')
       \<and> (search_filter l fc2 = Inr f2
            \<longrightarrow> client_search l (client self) name2 q2 limit2 f2 True (server w2) = (Inr [], s2)
            \<longrightarrow> fst (search l self name2 q2 limit2 fc2 w2) = fst (search l self name q limit fc w))"
  using assms by (auto simp: search_def)

theorem search_failure_returns_empty_witness:
  "search ref_lib demo_manager ''nowhere'' [0.1, 0.2, 0.3, 0.4] 5 None (start demo_server) =
     (Returns [], \<lparr>server = demo_server,
                   stdout = [Line (''Search failed: '' @ message (not_found ''nowhere''))]\<rparr>)
   \<and> fst (search ref_lib demo_manager ''python_demo'' [0.1, 0.2, 0.3, 0.4] 5 None (start demo_server))
       = Returns []"
proof -
  have f: "search_filter ref_lib None = Inr None"
    by (simp add: search_filter_def)
  have fails: "client_search ref_lib (client demo_manager) ''nowhere'' [0.1, 0.2, 0.3, 0.4] 5 None True
                 (server (start demo_server)) = (Inl (not_found ''nowhere''), demo_server)"
    by (simp add: ref_lib_fields ref_search_def start_def demo_server_def)
  have none: "client_search ref_lib (client demo_manager) ''python_demo'' [0.1, 0.2, 0.3, 0.4] 5 None True
                (server (start demo_server)) = (Inr [], demo_server)"
    by (simp add: ref_lib_fields ref_search_def start_def demo_server_def best_first_def)
  have "search_filter ref_lib None = Inl (not_found ''nowhere'') \<and> start demo_server = start demo_server
      \<or> (\<exists>f s'. search_filter ref_lib None = Inr f
            \<and> client_search ref_lib (client demo_manager) ''nowhere'' [0.1, 0.2, 0.3, 0.4] 5 f True
                 (server (start demo_server)) = (Inl (not_found ''nowhere''), s')
            \<and> start demo_server = (start demo_server)\<lparr>server := s'\<rparr>)"
    using f fails by (simp add: start_def)
  from search_failure_returns_empty [OF this, of None None "''python_demo''" "[0.1, 0.2, 0.3, 0.4]" 5
      "start demo_server" demo_server]
  show ?thesis using f none by (simp add: start_def print_def)
qed

text \<open>
  Claim C7. Two calls of \<open>delete_collection\<close> with the same name return normally, with
  no return value, whatever the library does; when the second call of the library fails,
  the failure is printed and nothing else happens.
\<close>

theorem delete_collection_twice:
  "fst (then_do (delete_collection l self name) (\<lambda>_. delete_collection l self name) w) = Returns ()
   \<and> (delete_collection l self name w = (Returns (), w1)
        \<longrightarrow> client_delete_collection l (client self) name (server w1) = (Inl e, s2)
        \<longrightarrow> snd (then_do (delete_collection l self name) (\<lambda>_. delete_collection l self name) w)
              = print (Line (''Failed to delete collection: '' @ message e)) (w1\<lparr>server := s2\<rparr>))"
  by (auto simp: then_do_def delete_collection_def split: prod.splits sum.splits)

theorem delete_collection_twice_witness:
  "then_do (delete_collection ref_lib demo_manager ''python_demo'')
     (\<lambda>_. delete_collection ref_lib demo_manager ''python_demo'') (start demo_server) =
   (Returns (),
    \<lparr>server = empty_server,
     stdout = [Line ''Deleted collection: python_demo'',
               Line (''Failed to delete collection: '' @ message (not_found ''python_demo''))]\<rparr>)"
proof -
  let ?w1 = "\<lparr>server = empty_server, stdout = [Line ''Deleted collection: python_demo'']\<rparr>"
  have first: "delete_collection ref_lib demo_manager ''python_demo'' (start demo_server) = (Returns (), ?w1)"
    by (simp add: delete_collection_def ref_lib_fields ref_delete_collection_def start_def
          demo_server_def empty_server_def print_def)
  have second: "client_delete_collection ref_lib (client demo_manager) ''python_demo'' (server ?w1)
                  = (Inl (not_found ''python_demo''), empty_server)"
    by (simp add: ref_lib_fields ref_delete_collection_def empty_server_def)
  from delete_collection_twice [of ref_lib demo_manager "''python_demo''" "start demo_server" ?w1
      "not_found ''python_demo''" empty_server]
  show ?thesis using first second
    by (simp add: prod_eq_iff print_def)
qed

text \<open>
  Claim C8. When the service reports no collection, \<open>list_collections\<close> prints one line
  and returns the empty list; it raises nothing.
\<close>

theorem list_collections_no_collection:
  assumes "client_get_collections l (client self) (server w) = (Inr resp, s')"
    and "collections resp = []"
  shows "list_collections l self w = (Returns [], print (Line ''No collections found'') (w\<lparr>server := s'\<rparr>))"
  using assms by (simp add: list_collections_def)

theorem list_collections_no_collection_witness:
  "list_collections ref_lib demo_manager (start empty_server) =
     (Returns [], \<lparr>server = empty_server, stdout = [Line ''No collections found'']\<rparr>)"
proof -
  have "client_get_collections ref_lib (client demo_manager) (server (start empty_server))
          = (Inr \<lparr>collections = []\<rparr>, empty_server)"
    by (simp add: ref_lib_fields ref_get_collections_def start_def empty_server_def)
  from list_collections_no_collection [OF this]
  show ?thesis by (simp add: start_def print_def)
qed

text \<open>
  Claim C9. \<open>list_collections\<close> has no handler: a failure of the call that lists the
  collections, and a failure of the fetch of the information of a collection in the loop
  (after the fetches for the collections before it succeeded), raise to the caller.
  The other operations return normally whatever the library does: \<open>create_collection\<close>,
  \<open>search\<close>, \<open>get_info\<close> and \<open>delete_collection\<close> always, \<open>insert_points\<close> once its
  points are built.
\<close>

theorem list_collections_propagates:
  "(client_get_collections l (client self) (server w) = (Inl e, s')
      \<longrightarrow> list_collections l self w = (Raises e, w\<lparr>server := s'\<rparr>))
   \<and> (client_get_collections l (client self) (server w) = (Inr resp, s')
        \<and> collections resp = before @ collection # after
        \<and> list_collections_loop l self before [] (w\<lparr>server := s'\<rparr>) = (Returns names, w1)
        \<and> client_get_collection l (client self) (name_cd collection) (server w1) = (Inl e, s2)
      \<longrightarrow> list_collections l self w = (Raises e, w1\<lparr>server := s2\<rparr>))
   \<and> fst (create_collection l self name vector_size distance w) = Returns ()
   \<and> (qdrant_points_loop l points [] = Inr qdrant_points
        \<longrightarrow> fst (insert_points l self name points w) = Returns ())
   \<and> (\<exists>results. fst (search l self name q limit fc w) = Returns results)
   \<and> (\<exists>info. fst (get_info l self name w) = Returns info)
   \<and> fst (delete_collection l self name w) = Returns ()"
proof (intro conjI impI)
  assume "client_get_collections l (client self) (server w) = (Inl e, s')"
  then show "list_collections l self w = (Raises e, w\<lparr>server := s'\<rparr>)"
    by (simp add: list_collections_def)
next
  assume a: "client_get_collections l (client self) (server w) = (Inr resp, s')
        \<and> collections resp = before @ collection # after
        \<and> list_collections_loop l self before [] (w\<lparr>server := s'\<rparr>) = (Returns names, w1)
        \<and> client_get_collection l (client self) (name_cd collection) (server w1) = (Inl e, s2)"
  then have "list_collections l self w =
      list_collections_loop l self (before @ collection # after) [] (w\<lparr>server := s'\<rparr>)"
    by (simp add: list_collections_def)
  also have "\<dots> = list_collections_loop l self (collection # after) names w1"
    using a by (simp add: list_collections_loop_append then_do_def)
  also have "\<dots> = (Raises e, w1\<lparr>server := s2\<rparr>)"
    using a by simp
  finally show "list_collections l self w = (Raises e, w1\<lparr>server := s2\<rparr>)" .
next
  show "fst (create_collection l self name vector_size distance w) = Returns ()"
    by (simp add: create_collection_def split: prod.splits sum.splits)
next
  assume "qdrant_points_loop l points [] = Inr qdrant_points"
  then show "fst (insert_points l self name points w) = Returns ()"
    by (simp add: insert_points_def split: prod.splits sum.splits)
next
  show "\<exists>results. fst (search l self name q limit fc w) = Returns results"
    by (simp add: search_def split: prod.splits sum.splits)
next
  show "\<exists>info. fst (get_info l self name w) = Returns info"
    by (simp add: get_info_def split: prod.splits sum.splits vectors_config.splits)
next
  show "fst (delete_collection l self name w) = Returns ()"
    by (simp add: delete_collection_def split: prod.splits sum.splits)
qed

theorem list_collections_propagates_witness:
  "list_collections ref_lib demo_manager (start down_server) = (Raises refused, start down_server)
   \<and> list_collections no_info_lib demo_manager (start test_server) = (Raises refused, start test_server)"
proof -
  have down: "client_get_collections ref_lib (client demo_manager) (server (start down_server))
                = (Inl refused, down_server)"
    by (simp add: ref_lib_fields ref_get_collections_def start_def down_server_def)
  have listed: "client_get_collections no_info_lib (client demo_manager) (server (start test_server))
                  = (Inr \<lparr>collections = [] @ \<lparr>name_cd = ''test_collection''\<rparr> # []\<rparr>, test_server)"
    by (simp add: no_info_lib_fields ref_get_collections_def start_def test_server_def)
  have loop: "list_collections_loop no_info_lib demo_manager [] [] ((start test_server)\<lparr>server := test_server\<rparr>)
                = (Returns [], start test_server)"
    by (simp add: start_def)
  have fetch: "client_get_collection no_info_lib (client demo_manager)
                 (name_cd \<lparr>name_cd = ''test_collection''\<rparr>) (server (start test_server))
                 = (Inl refused, test_server)"
    by (simp add: no_info_lib_fields start_def)
  from list_collections_propagates [of ref_lib demo_manager "start down_server" refused down_server]
  have 1: "list_collections ref_lib demo_manager (start down_server) = (Raises refused, start down_server)"
    using down by (simp add: start_def)
  from list_collections_propagates [of no_info_lib demo_manager "start test_server" refused test_server
      "\<lparr>collections = [] @ \<lparr>name_cd = ''test_collection''\<rparr> # []\<rparr>" "[]"
      "\<lparr>name_cd = ''test_collection''\<rparr>" "[]" "[]" "start test_server" test_server]
  have 2: "list_collections no_info_lib demo_manager (start test_server) = (Raises refused, start test_server)"
    using listed loop fetch by (simp add: start_def)
  from 1 2 show ?thesis by simp
qed

text \<open>
  Claim C10. When \<open>QDRANT_PORT\<close> is set to a string that is no integer, the construction
  of the manager raises the conversion error, whatever the host is, before anything is
  printed and before the library is called; \<open>main\<close> ends with this exception and not
  with the exit of status 1.
\<close>

theorem non_integer_port_raises:
  assumes "environ ''QDRANT_PORT'' = Some s" and "int_str l s = None"
  shows "QdrantManager_init l environ w = (Raises (ValueError s), w)
       \<and> main l environ w = (Raises (ValueError s), w)"
  using assms by (simp add: QdrantManager_init_def read_port_def main_def then_do_def)

theorem non_integer_port_raises_witness:
  "QdrantManager_init ref_lib (demo_environ(''QDRANT_PORT'' \<mapsto> ''63e3'')) (start empty_server)
     = (Raises (ValueError ''63e3''), start empty_server)
   \<and> main ref_lib (demo_environ(''QDRANT_PORT'' \<mapsto> ''63e3'')) (start empty_server)
     = (Raises (ValueError ''63e3''), start empty_server)"
proof -
  have set: "(demo_environ(''QDRANT_PORT'' \<mapsto> ''63e3'')) ''QDRANT_PORT'' = Some ''63e3''"
    by simp
  have bad: "int_str ref_lib ''63e3'' = None"
    by (simp add: ref_lib_fields ref_int_str_def strip_def number_value_def)
  from non_integer_port_raises [of "demo_environ(''QDRANT_PORT'' \<mapsto> ''63e3'')" "''63e3''" ref_lib
      "start empty_server", OF set bad]
  show ?thesis .
qed

text \<open>
  Claim C6. On the reference service: for every name that is not empty and not yet the
  name of a collection and every positive vector size, \<open>create_collection\<close> followed by
  \<open>get_info\<close> on the same name returns a mapping whose vector size is the size given at
  the creation, whatever the distance string is.
\<close>

theorem create_then_get_info_size:
  assumes "reachable (server w)" and "name \<noteq> []" and "map_of (colls (server w)) name = None"
    and "0 < vector_size"
  shows "\<exists>info. fst (then_do (create_collection ref_lib self name vector_size distance)
                       (\<lambda>_. get_info ref_lib self name) w) = Returns (Some info)
              \<and> vector_size_info info = vector_size \<and> points_count_info info = 0"
  using assms
  by (simp add: then_do_def create_collection_def get_info_def ref_lib_fields print_def
        ref_create_fresh ref_get_collection_last)

theorem create_then_get_info_size_witness:
  "reachable (server (start test_server)) \<and> ''python_demo'' \<noteq> []
   \<and> map_of (colls (server (start test_server))) ''python_demo'' = None \<and> (0::int) < 4
   \<and> (\<exists>info. fst (then_do (create_collection ref_lib demo_manager ''python_demo'' 4 ''Dot'')
                       (\<lambda>_. get_info ref_lib demo_manager ''python_demo'') (start test_server))
                = Returns (Some info)
              \<and> vector_size_info info = 4 \<and> points_count_info info = 0)"
proof -
  have 1: "reachable (server (start test_server))"
    by (simp add: start_def test_server_def)
  have 2: "''python_demo'' \<noteq> []" by simp
  have 3: "map_of (colls (server (start test_server))) ''python_demo'' = None"
    by (simp add: start_def test_server_def)
  have 4: "(0::int) < 4" by simp
  from create_then_get_info_size [OF 1 2 3 4, of demo_manager "''Dot''"] 1 3
  show ?thesis by simp
qed

text \<open>
  Claim C3, as amended. For every collection name and every list of input points each of
  which has the keys \<open>id\<close> and \<open>vector\<close> and is accepted by \<open>PointStruct\<close>,
  \<open>insert_points\<close> makes one upsert call with all the points, in order, where a point
  with no key \<open>payload\<close> gets the empty dictionary as payload; when this call fails the
  failure is printed, and in both cases \<open>insert_points\<close> returns normally with no value.
\<close>

theorem insert_points_single_upsert:
  assumes "\<forall>point \<in> set points. \<exists>i v q.
             map_of point ''id'' = Some i \<and> map_of point ''vector'' = Some v
             \<and> mk_PointStruct l i v (case map_of point ''payload'' of None \<Rightarrow> PDict [] | Some p \<Rightarrow> p)
                 = Inr q"
  shows "insert_points l self collection_name points w =
     (case client_upsert l (client self) collection_name
             (map (\<lambda>point. projr (mk_PointStruct l (the (map_of point ''id''))
                                     (the (map_of point ''vector''))
                                     (case map_of point ''payload'' of None \<Rightarrow> PDict [] | Some p \<Rightarrow> p)))
                points)
             (server w) of
        (Inr _, s') \<Rightarrow> (Returns (), print (Inserted_line (length points)) (w\<lparr>server := s'\<rparr>))
      | (Inl e, s') \<Rightarrow>
          (Returns (), print (Line (''Failed to insert points: '' @ message e)) (w\<lparr>server := s'\<rparr>)))"
proof -
  have each: "qdrant_point l point =
      Inr (projr (mk_PointStruct l (the (map_of point ''id'')) (the (map_of point ''vector''))
                    (case map_of point ''payload'' of None \<Rightarrow> PDict [] | Some p \<Rightarrow> p)))"
    if "point \<in> set points" for point
  proof -
    from assms that obtain i v q where
      "map_of point ''id'' = Some i" "map_of point ''vector'' = Some v"
      "mk_PointStruct l i v (case map_of point ''payload'' of None \<Rightarrow> PDict [] | Some p \<Rightarrow> p) = Inr q"
      by blast
    then show ?thesis by (simp add: qdrant_point_def)
  qed
  then have "\<forall>point \<in> set points. \<not> isl (qdrant_point l point)"
    by simp
  from qdrant_points_loop_all [OF this, of "[]"]
  have "qdrant_points_loop l points [] = Inr (map (\<lambda>point. projr (qdrant_point l point)) points)"
    by simp
  also have "map (\<lambda>point. projr (qdrant_point l point)) points =
      map (\<lambda>point. projr (mk_PointStruct l (the (map_of point ''id'')) (the (map_of point ''vector''))
                            (case map_of point ''payload'' of None \<Rightarrow> PDict [] | Some p \<Rightarrow> p))) points"
    using each by (intro map_cong) simp_all
  finally show ?thesis
    by (simp add: insert_points_def)
qed

theorem insert_points_single_upsert_witness:
  "insert_points ref_lib demo_manager ''python_demo''
     [[(''id'', PInt 1), (''vector'', PList [PFloat 0.1, PFloat 0.2, PFloat 0.3, PFloat 0.4])]]
     (start demo_server) =
   (Returns (),
    \<lparr>server = \<lparr>reachable = True,
                colls = [(''python_demo'',
                          \<lparr>params_rc = \<lparr>size_vp = 4, distance_vp = DOT\<rparr>,
                           points_rc = [(IntId 1, [0.1, 0.2, 0.3, 0.4], Some [])]\<rparr>)]\<rparr>,
     stdout = [Inserted_line 1]\<rparr>)
   \<and> insert_points ref_lib demo_manager ''python_demo''
     [[(''id'', PInt 1), (''vector'', PList [PFloat 0.1, PFloat 0.2, PFloat 0.3, PFloat 0.4])]]
     (start empty_server) =
   (Returns (),
    \<lparr>server = empty_server,
     stdout = [Line (''Failed to insert points: '' @ message (not_found ''python_demo''))]\<rparr>)"
proof -
  let ?points = "[[(''id'', PInt 1), (''vector'', PList [PFloat 0.1, PFloat 0.2, PFloat 0.3, PFloat 0.4])]]"
  have ok: "\<forall>point \<in> set ?points. \<exists>i v q.
             map_of point ''id'' = Some i \<and> map_of point ''vector'' = Some v
             \<and> mk_PointStruct ref_lib i v (case map_of point ''payload'' of None \<Rightarrow> PDict [] | Some p \<Rightarrow> p)
                 = Inr q"
    by (simp add: ref_lib_fields ref_mk_PointStruct_def)
  from insert_points_single_upsert [OF ok, of demo_manager "''python_demo''" "start demo_server"]
       insert_points_single_upsert [OF ok, of demo_manager "''python_demo''" "start empty_server"]
  show ?thesis
    by (simp add: ref_lib_fields ref_mk_PointStruct_def ref_upsert_def start_def demo_server_def
          empty_server_def print_def)
qed

text \<open>
  Claim C3, as stated, fails: a point with no key \<open>id\<close> makes \<open>insert_points\<close> raise
  \<open>KeyError\<close> to its caller, before any upsert and with nothing printed.
\<close>

theorem insert_points_missing_id_raises:
  "insert_points ref_lib demo_manager ''python_demo''
     [[(''vector'', PList [PFloat 0.1, PFloat 0.2, PFloat 0.3, PFloat 0.4])]] (start demo_server)
   = (Raises (KeyError ''id''), start demo_server)"
  by (simp add: insert_points_def qdrant_point_def)

text \<open>
  Claim C5, as amended. When \<open>QDRANT_PORT\<close> is unset or is an integer, so that the port
  is read as \<open>p\<close>: the construction of the manager exits with status 1 exactly when
  \<open>QDRANT_HOST\<close> is absent or empty or the connection test (making the client and
  listing the collections) fails; in the first case it has printed the two usage lines,
  in the second the error; otherwise it returns the manager with this host and port;
  and when \<open>QDRANT_PORT\<close> is unset the port is 6333.
\<close>

theorem init_exits_with_status_1:
  assumes "read_port l environ = Inr p"
  shows "((fst (QdrantManager_init l environ w) = Exits 1) =
            (environ ''QDRANT_HOST'' = None \<or> environ ''QDRANT_HOST'' = Some []
             \<or> (\<exists>h. environ ''QDRANT_HOST'' = Some h \<and> isl (fst (connect l h p (server w))))))
       \<and> (environ ''QDRANT_HOST'' = None \<or> environ ''QDRANT_HOST'' = Some []
            \<longrightarrow> QdrantManager_init l environ w = (Exits 1, usage w))
       \<and> (environ ''QDRANT_HOST'' = Some h \<and> h \<noteq> [] \<and> connect l h p (server w) = (Inl e, s')
            \<longrightarrow> QdrantManager_init l environ w =
                  (Exits 1, print (Line (''Connection failed: '' @ message e)) (w\<lparr>server := s'\<rparr>)))
       \<and> (environ ''QDRANT_HOST'' = Some h \<and> h \<noteq> [] \<and> connect l h p (server w) = (Inr c, s')
            \<longrightarrow> QdrantManager_init l environ w =
                  (Returns \<lparr>host = h, port = p, client = c\<rparr>, w\<lparr>server := s'\<rparr>))
       \<and> (environ ''QDRANT_PORT'' = None \<longrightarrow> p = 6333)"
proof (intro conjI impI)
  show "(fst (QdrantManager_init l environ w) = Exits 1) =
            (environ ''QDRANT_HOST'' = None \<or> environ ''QDRANT_HOST'' = Some []
             \<or> (\<exists>h. environ ''QDRANT_HOST'' = Some h \<and> isl (fst (connect l h p (server w)))))"
    using assms by (auto simp: QdrantManager_init_def split: option.splits sum.splits prod.splits)
next
  assume "environ ''QDRANT_HOST'' = None \<or> environ ''QDRANT_HOST'' = Some []"
  then show "QdrantManager_init l environ w = (Exits 1, usage w)"
    using assms by (auto simp: QdrantManager_init_def)
next
  assume "environ ''QDRANT_HOST'' = Some h \<and> h \<noteq> [] \<and> connect l h p (server w) = (Inl e, s')"
  then show "QdrantManager_init l environ w =
      (Exits 1, print (Line (''Connection failed: '' @ message e)) (w\<lparr>server := s'\<rparr>))"
    using assms by (simp add: QdrantManager_init_def)
next
  assume "environ ''QDRANT_HOST'' = Some h \<and> h \<noteq> [] \<and> connect l h p (server w) = (Inr c, s')"
  then show "QdrantManager_init l environ w = (Returns \<lparr>host = h, port = p, client = c\<rparr>, w\<lparr>server := s'\<rparr>)"
    using assms by (simp add: QdrantManager_init_def)
next
  assume "environ ''QDRANT_PORT'' = None"
  then show "p = 6333"
    using assms by (simp add: read_port_def)
qed

theorem init_exits_with_status_1_witness:
  "QdrantManager_init ref_lib Map.empty (start empty_server) = (Exits 1, usage (start empty_server))
   \<and> QdrantManager_init ref_lib demo_environ (start down_server) =
       (Exits 1, print (Line (''Connection failed: '' @ message refused)) (start down_server))
   \<and> QdrantManager_init ref_lib demo_environ (start empty_server) =
       (Returns \<lparr>host = ''13.250.25.109'', port = 6333, client = ()\<rparr>, start empty_server)"
proof -
  have p0: "read_port ref_lib Map.empty = Inr 6333"
    by (simp add: read_port_def)
  have p1: "read_port ref_lib demo_environ = Inr 6333"
    by (simp add: read_port_def demo_environ_def)
  have h: "demo_environ ''QDRANT_HOST'' = Some ''13.250.25.109''"
    by (simp add: demo_environ_def)
  have down: "connect ref_lib ''13.250.25.109'' 6333 (server (start down_server)) = (Inl refused, down_server)"
    by (simp add: ref_connect_down start_def down_server_def)
  have up: "connect ref_lib ''13.250.25.109'' 6333 (server (start empty_server)) = (Inr (), empty_server)"
    by (simp add: ref_connect start_def empty_server_def)
  from init_exits_with_status_1 [OF p0, of "start empty_server"]
  have 1: "QdrantManager_init ref_lib Map.empty (start empty_server) = (Exits 1, usage (start empty_server))"
    by simp
  from init_exits_with_status_1 [OF p1, of "start down_server" "''13.250.25.109''" refused down_server]
  have 2: "QdrantManager_init ref_lib demo_environ (start down_server) =
       (Exits 1, print (Line (''Connection failed: '' @ message refused)) (start down_server))"
    using h down by (simp add: start_def)
  from init_exits_with_status_1 [OF p1, of "start empty_server" "''13.250.25.109''" _ empty_server "()"]
  have 3: "QdrantManager_init ref_lib demo_environ (start empty_server) =
       (Returns \<lparr>host = ''13.250.25.109'', port = 6333, client = ()\<rparr>, start empty_server)"
    using h up by (simp add: start_def)
  from 1 2 3 show ?thesis by simp
qed

text \<open>
  Claim C5, as stated, fails: with \<open>QDRANT_HOST\<close> absent and \<open>QDRANT_PORT\<close> set to a
  string that is no integer, the construction does not exit with status 1 and prints no
  usage line; it raises the conversion error.
\<close>

theorem init_missing_host_bad_port_raises:
  "QdrantManager_init ref_lib [''QDRANT_PORT'' \<mapsto> ''abc''] (start empty_server)
     = (Raises (ValueError ''abc''), start empty_server)"
  by (simp add: QdrantManager_init_def read_port_def ref_lib_fields ref_int_str_def strip_def
        number_value_def)

text \<open>
  Claim C1, as amended. On the reference service, reachable and without a collection
  \<open>python_demo\<close>, with a host and a port in the environment: \<open>main\<close> returns normally,
  and the search of the demo (query \<open>[0.1, 0.2, 0.3, 0.4]\<close>, limit 2, after the creation
  of \<open>python_demo\<close> with size 4 and the metric \<open>Dot\<close> and the insertion of the three
  sample points) yields exactly two results in descending order of the dot product:
  first id 2, then id 3. Id 1, the exact match, has the lowest dot product of the three
  and is not among the results.
\<close>

theorem demo_search_ranks_by_dot_product:
  assumes "read_port ref_lib environ = Inr p"
    and "environ ''QDRANT_HOST'' = Some h" and "h \<noteq> []"
    and "reachable (server w)"
    and "map_of (colls (server w)) ''python_demo'' = None"
  shows "\<exists>pre. main ref_lib environ w =
     (Returns (),
      w\<lparr>stdout := stdout w @ pre @
         [Line (CHR 0x0A # ''Searching python_demo:''),
          Result_line 1 (IntId 2) (dot [0.1, 0.2, 0.3, 0.4] [0.5, 0.6, 0.7, 0.8]),
          Payload_line (Some [(''name'', PStr ''item_2''), (''category'', PStr ''B'')]),
          Result_line 2 (IntId 3) (dot [0.1, 0.2, 0.3, 0.4] [0.9, 0.1, 0.5, 0.2]),
          Payload_line (Some [(''name'', PStr ''item_3''), (''category'', PStr ''A'')]),
          Line ''Deleted collection: python_demo'']\<rparr>)
     \<and> dot [0.1, 0.2, 0.3, 0.4] [0.1, 0.2, 0.3, 0.4] < dot [0.1, 0.2, 0.3, 0.4] [0.9, 0.1, 0.5, 0.2]
     \<and> dot [0.1, 0.2, 0.3, 0.4] [0.9, 0.1, 0.5, 0.2] < dot [0.1, 0.2, 0.3, 0.4] [0.5, 0.6, 0.7, 0.8]"
proof -
  let ?m = "\<lparr>host = h, port = p, client = ()\<rparr>"
  have i: "QdrantManager_init ref_lib environ w = (Returns ?m, w)"
    using assms by (simp add: ref_init)
  from ref_main_existing [OF assms(4), of ?m] obtain out where
    e: "main_existing ref_lib ?m w = (Returns (), w\<lparr>stdout := stdout w @ out\<rparr>)"
    by blast
  let ?w1 = "w\<lparr>stdout := stdout w @ out\<rparr>"
  have "reachable (server ?w1)" and "map_of (colls (server ?w1)) ''python_demo'' = None"
    using assms by simp_all
  note d = ref_main_demo [OF this, of ?m]
  have "main ref_lib environ w = main_demo ref_lib ?m ?w1"
    using i e by (simp add: main_def then_do_def)
  then have "main ref_lib environ w =
     (Returns (),
      w\<lparr>stdout := stdout w @
         (out @ [Line (CHR 0x0A # ''Demo - Creating new collection:''),
                 Line ''Created collection: python_demo'', Inserted_line 3]) @
         [Line (CHR 0x0A # ''Searching python_demo:''),
          Result_line 1 (IntId 2) (dot [0.1, 0.2, 0.3, 0.4] [0.5, 0.6, 0.7, 0.8]),
          Payload_line (Some [(''name'', PStr ''item_2''), (''category'', PStr ''B'')]),
          Result_line 2 (IntId 3) (dot [0.1, 0.2, 0.3, 0.4] [0.9, 0.1, 0.5, 0.2]),
          Payload_line (Some [(''name'', PStr ''item_3''), (''category'', PStr ''A'')]),
          Line ''Deleted collection: python_demo'']\<rparr>)"
    using d by (simp add: dot_def)
  moreover have "dot [0.1, 0.2, 0.3, 0.4] [0.1, 0.2, 0.3, 0.4] < dot [0.1, 0.2, 0.3, 0.4] [0.9, 0.1, 0.5, 0.2]"
    and "dot [0.1, 0.2, 0.3, 0.4] [0.9, 0.1, 0.5, 0.2] < dot [0.1, 0.2, 0.3, 0.4] [0.5, 0.6, 0.7, 0.8]"
    by (simp_all add: dot_def)
  ultimately show ?thesis by blast
qed

theorem demo_search_ranks_by_dot_product_witness:
  "read_port ref_lib demo_environ = Inr 6333
   \<and> demo_environ ''QDRANT_HOST'' = Some ''13.250.25.109''
   \<and> reachable (server (start test_server))
   \<and> map_of (colls (server (start test_server))) ''python_demo'' = None
   \<and> (\<exists>pre. main ref_lib demo_environ (start test_server) =
        (Returns (),
         \<lparr>server = test_server,
          stdout = pre @
            [Line (CHR 0x0A # ''Searching python_demo:''),
             Result_line 1 (IntId 2) 0.7,
             Payload_line (Some [(''name'', PStr ''item_2''), (''category'', PStr ''B'')]),
             Result_line 2 (IntId 3) 0.34,
             Payload_line (Some [(''name'', PStr ''item_3''), (''category'', PStr ''A'')]),
             Line ''Deleted collection: python_demo'']\<rparr>))"
proof -
  have 1: "read_port ref_lib demo_environ = Inr 6333"
    by (simp add: read_port_def demo_environ_def)
  have 2: "demo_environ ''QDRANT_HOST'' = Some ''13.250.25.109''"
    by (simp add: demo_environ_def)
  have 3: "''13.250.25.109'' \<noteq> []" by simp
  have 4: "reachable (server (start test_server))"
    by (simp add: start_def test_server_def)
  have 5: "map_of (colls (server (start test_server))) ''python_demo'' = None"
    by (simp add: start_def test_server_def)
  from demo_search_ranks_by_dot_product [OF 1 2 3 4 5] 1 2 4 5
  show ?thesis by (simp add: start_def dot_def)
qed

text \<open>
  Claim C1, as stated, fails: on the empty reference service the first result of the
  demo search is id 2 with the score 0.7 and the second is id 3 with the score 0.34;
  the score of id 1 is 0.3, below both.
\<close>

theorem demo_top_result_is_id_2:
  "main ref_lib demo_environ (start empty_server) =
     (Returns (),
      \<lparr>server = empty_server,
       stdout =
         [Line ''Collections:'',
          Line ''No collections found'',
          Line (CHR 0x0A # ''Demo - Creating new collection:''),
          Line ''Created collection: python_demo'',
          Inserted_line 3,
          Line (CHR 0x0A # ''Searching python_demo:''),
          Result_line 1 (IntId 2) 0.7,
          Payload_line (Some [(''name'', PStr ''item_2''), (''category'', PStr ''B'')]),
          Result_line 2 (IntId 3) 0.34,
          Payload_line (Some [(''name'', PStr ''item_3''), (''category'', PStr ''A'')]),
          Line ''Deleted collection: python_demo'']\<rparr>)
   \<and> score DOT [0.1, 0.2, 0.3, 0.4] [0.1, 0.2, 0.3, 0.4] = 0.3"
proof -
  have i: "QdrantManager_init ref_lib demo_environ (start empty_server) = (Returns demo_manager, start empty_server)"
    by (simp add: ref_init [where p = 6333 and h = "''13.250.25.109''"] read_port_def demo_environ_def
          demo_manager_def start_def empty_server_def)
  have d: "main_demo ref_lib demo_manager \<lparr>server = empty_server,
             stdout = [Line ''Collections:'', Line ''No collections found'']\<rparr> =
     (Returns (),
      \<lparr>server = empty_server,
       stdout =
         [Line ''Collections:'',
          Line ''No collections found'',
          Line (CHR 0x0A # ''Demo - Creating new collection:''),
          Line ''Created collection: python_demo'',
          Inserted_line 3,
          Line (CHR 0x0A # ''Searching python_demo:''),
          Result_line 1 (IntId 2) 0.7,
          Payload_line (Some [(''name'', PStr ''item_2''), (''category'', PStr ''B'')]),
          Result_line 2 (IntId 3) 0.34,
          Payload_line (Some [(''name'', PStr ''item_3''), (''category'', PStr ''A'')]),
          Line ''Deleted collection: python_demo'']\<rparr>)"
    by (simp add: ref_main_demo empty_server_def)
  have "main ref_lib demo_environ (start empty_server) =
          main_demo ref_lib demo_manager \<lparr>server = empty_server,
             stdout = [Line ''Collections:'', Line ''No collections found'']\<rparr>"
    using i by (simp add: main_def then_do_def ref_main_existing_empty)
  with d show ?thesis by (simp add: score_def dot_def)
qed

end
